theory Spec2Isabelle
  imports Complex_Main
begin

section \<open>ImageAnimation.tsx: the visibility-gated frame player\<close>

text \<open>
  The component keeps three pieces of React state (\<open>currentFrame\<close>, \<open>isAnimating\<close>,
  \<open>highResLoaded\<close>) and one ref, \<open>animationInterval\<close>, holding the handle returned by
  \<open>setInterval\<close>. The browser's table of live intervals is part of the modelled state
  (\<open>timers\<close>: handle and delay of every interval that has not been cleared), so that
  "the timer is cancelled" is a statement about the state.

  The callbacks of the component are the transitions. React and the browser decide when a
  callback is invoked; they are the environment and appear as the events of \<open>step\<close>.
  Every callback that reads \<open>isAnimating\<close> is created by \<open>useCallback\<close> with
  \<open>isAnimating\<close> among its dependencies and registered by an effect that lists the
  callback as a dependency, so the observer callback and the interval callback read the
  value of the state they are run in. The cleanup of the observer effect is the
  exception: React runs it when the next render has been committed, and it calls the
  \<open>stopAnimation\<close> of the render before, which holds the \<open>isAnimating\<close> of that render.
\<close>

record props =
  frames :: "string list"
  msBetweenFrame :: "int option"

text \<open>The default parameter \<^verbatim>\<open>msBetweenFrame = 15\<close>.\<close>

definition cadence :: "props \<Rightarrow> int" where
  "cadence p = (case msBetweenFrame p of None \<Rightarrow> 15 | Some ms \<Rightarrow> ms)"

record player =
  currentFrame :: nat
  isAnimating :: bool
  highResLoaded :: bool
  animationInterval :: "nat option"
  timers :: "(nat \<times> int) list"
  nextHandle :: nat

text \<open>The state of a freshly mounted component: the \<open>useState\<close> and \<open>useRef\<close>
  initialisers. Nothing in the component inspects \<open>frames\<close> or \<open>msBetweenFrame\<close> here.\<close>

definition ImageAnimation_mount :: "props \<Rightarrow> player" where
  "ImageAnimation_mount p =
     \<lparr>currentFrame = 0, isAnimating = False, highResLoaded = False,
      animationInterval = None, timers = [], nextHandle = 0\<rparr>"

text \<open>\<^verbatim>\<open>clearInterval(h)\<close>: the interval with that handle stops firing; \<open>undefined\<close>
  clears nothing.\<close>

definition clearInterval :: "nat option \<Rightarrow> player \<Rightarrow> player" where
  "clearInterval h s =
     (case h of
        None \<Rightarrow> s
      | Some i \<Rightarrow> s\<lparr>timers := filter (\<lambda>t. fst t \<noteq> i) (timers s)\<rparr>)"

definition startAnimation :: "player \<Rightarrow> player" where
  "startAnimation s = (if \<not> isAnimating s then s\<lparr>isAnimating := True\<rparr> else s)"

definition stopAnimation :: "player \<Rightarrow> player" where
  "stopAnimation s =
     (if isAnimating s
      then (clearInterval (animationInterval s) s)\<lparr>isAnimating := False\<rparr>
      else s)"

definition resetAnimation :: "player \<Rightarrow> player" where
  "resetAnimation s = stopAnimation (s\<lparr>currentFrame := 0\<rparr>)"

text \<open>The interval callback: \<^verbatim>\<open>setCurrentFrame(prev => ...)\<close>. On the branch that calls
  \<open>stopAnimation\<close> the updater returns \<open>prevFrame\<close>, so the index is left as it is.\<close>

definition tick :: "props \<Rightarrow> player \<Rightarrow> player" where
  "tick p s =
     (if currentFrame s + 1 = length (frames p)
      then stopAnimation s
      else s\<lparr>currentFrame := currentFrame s + 1\<rparr>)"

text \<open>The effect with dependencies \<open>[isAnimating, frames.length, msBetweenFrame, stopAnimation]\<close>:
  its body stores the handle of a new interval in the ref when \<open>isAnimating\<close> holds; its
  cleanup clears the interval the ref points to. React runs the cleanup of the previous run
  before the body of the next one.\<close>

definition tickEffect :: "props \<Rightarrow> player \<Rightarrow> player" where
  "tickEffect p s =
     (if isAnimating s
      then s\<lparr>animationInterval := Some (nextHandle s),
             timers := timers s @ [(nextHandle s, cadence p)],
             nextHandle := Suc (nextHandle s)\<rparr>
      else s)"

definition tickEffectCleanup :: "player \<Rightarrow> player" where
  "tickEffectCleanup s = clearInterval (animationInterval s) s"

text \<open>The \<open>IntersectionObserver\<close> callback (the observer object itself is the browser's
  and is not modelled).\<close>

definition observerCallback :: "bool \<Rightarrow> player \<Rightarrow> player" where
  "observerCallback isIntersecting s =
     (if isIntersecting then startAnimation s else resetAnimation s)"

text \<open>The cleanup of the effect that creates the observer. React runs it at unmount and
  whenever a dependency of that effect has changed, among them \<open>currentFrame\<close> and
  \<open>isAnimating\<close>; the effect then creates a new observer. The cleanup calls the
  \<open>stopAnimation\<close> closure of the render in which the effect was set up: its test reads
  \<open>captured\<close>, the \<open>isAnimating\<close> of that render, not the value of the state, while
  \<open>clearInterval\<close> reads the ref and \<open>setIsAnimating(false)\<close> writes the state.\<close>

definition observerCleanup :: "bool \<Rightarrow> player \<Rightarrow> player" where
  "observerCleanup captured s =
     (if captured
      then (clearInterval (animationInterval s) s)\<lparr>isAnimating := False\<rparr>
      else s)"

text \<open>\<^verbatim>\<open>onLoad={() => setHighResLoaded(true)}\<close> of the high-resolution image.\<close>

definition onLoad :: "player \<Rightarrow> player" where
  "onLoad s = s\<lparr>highResLoaded := True\<rparr>"

text \<open>What is rendered: the two sources and the two opacities. In JavaScript
  \<open>frames[i]\<close> out of range is \<open>undefined\<close>, which a template literal prints as
  "undefined".\<close>

definition frameName :: "props \<Rightarrow> player \<Rightarrow> string" where
  "frameName p s =
     (if currentFrame s < length (frames p) then frames p ! currentFrame s else ''undefined'')"

definition lowResSrc :: "props \<Rightarrow> player \<Rightarrow> string" where
  "lowResSrc p s = ''/tape-falling-frames-placeholder/'' @ frameName p s"

definition highResSrc :: "bool \<Rightarrow> props \<Rightarrow> player \<Rightarrow> string" where
  "highResSrc mobile p s =
     ''/tape-falling-frames'' @ (if mobile then ''-min'' else '''') @ ''/'' @ frameName p s"

definition lowResOpacity :: "player \<Rightarrow> nat" where
  "lowResOpacity s = (if highResLoaded s then 0 else 1)"

definition highResOpacity :: "player \<Rightarrow> nat" where
  "highResOpacity s = (if highResLoaded s then 1 else 0)"

text \<open>The events of the environment. An interval fires only while it is live. The
  cleanup of the observer effect comes with the \<open>isAnimating\<close> its closure has captured.\<close>

datatype event = Intersect bool | Tick | Load | TickEffect | ObserverCleanup bool

fun step :: "props \<Rightarrow> event \<Rightarrow> player \<Rightarrow> player" where
  "step p (Intersect b) s = observerCallback b s"
| "step p Tick s = (if timers s \<noteq> [] then tick p s else s)"
| "step p Load s = onLoad s"
| "step p TickEffect s = tickEffect p (tickEffectCleanup s)"
| "step p (ObserverCleanup captured) s = observerCleanup captured s"

fun run :: "props \<Rightarrow> event list \<Rightarrow> player \<Rightarrow> player" where
  "run p [] s = s"
| "run p (e # es) s = run p es (step p e s)"

text \<open>The element becomes visible on a mounted player: the observer reports an
  intersection and React runs the interval effect for the changed \<open>isAnimating\<close>.\<close>

definition visible :: "props \<Rightarrow> player" where
  "visible p = run p [Intersect True, TickEffect] (ImageAnimation_mount p)"



text \<open>Every live interval is the one the ref points to, and intervals are live only
  while \<open>isAnimating\<close> holds.\<close>

definition timer_inv :: "player \<Rightarrow> bool" where
  "timer_inv s =
     (list_all (\<lambda>t. animationInterval s = Some (fst t)) (timers s)
      \<and> (isAnimating s \<or> timers s = []))"



section \<open>ThreeScene.tsx: the damped kinematics of the model\<close>

text \<open>
  JavaScript numbers are IEEE-754 doubles. The model computes over the reals: every
  definition applies the operations of the source to the operands of the source, in the
  order of the source, and leaves out the rounding of each single operation.

  The loaded object (\<open>modelRef.current\<close>) is reduced to the fields the component writes:
  the y-position, the three rotation angles and the scale. Its parent scene is reduced
  to the lights added to it and to its meshes.
\<close>

record model3d =
  position_y :: real
  rotation_x :: real
  rotation_y :: real
  rotation_z :: real
  scale_x :: real
  scale_y :: real
  scale_z :: real

datatype light =
  DirectionalLight real bool
  | AmbientLight real
  | SpotLight real bool

record mesh =
  flatShading :: bool
  castShadow :: bool
  needsUpdate :: bool

record model_state =
  modelRef :: "model3d option"
  isSetup :: bool
  lastScrollY :: real
  direction :: real
  positionalVelocity :: real
  rotationalXVelocity :: real
  rotationalYVelocity :: real
  rotationalZVelocity :: real
  sceneLights :: "light list"
  sceneMeshes :: "mesh list"

definition positionalVelocityDampingFactor :: real where
  "positionalVelocityDampingFactor = 0.91"

definition rotationalVelocityDampingFactor :: real where
  "rotationalVelocityDampingFactor = 0.97"

definition scrollDampingFactor :: real where
  "scrollDampingFactor = 0.92"

definition dampenDampeningFactor :: real where
  "dampenDampeningFactor = 0.1"

text \<open>The \<open>useState\<close> initialisers of \<open>Model\<close>. The handle, the lights already in the
  scene and its meshes come from the loader and the canvas.\<close>

definition Model_mount :: "model3d option \<Rightarrow> light list \<Rightarrow> mesh list \<Rightarrow> model_state" where
  "Model_mount m ls ms =
     \<lparr>modelRef = m, isSetup = False, lastScrollY = 0, direction = - 1,
      positionalVelocity = 0.25,
      rotationalXVelocity = 0, rotationalYVelocity = 0, rotationalZVelocity = 0,
      sceneLights = ls, sceneMeshes = ms\<rparr>"

text \<open>The window as the component reads it.\<close>

record window_env =
  innerWidth :: real
  innerHeight :: real
  isMobile :: bool

definition applySmoothShading :: "mesh list \<Rightarrow> mesh list" where
  "applySmoothShading ms =
     map (\<lambda>object. object\<lparr>flatShading := False, needsUpdate := True, castShadow := True\<rparr>) ms"

definition initRotations :: "(real \<times> real \<times> real) list" where
  "initRotations =
     [(1.35, 0.26, - 2.48),
      (0.59, 0.27, - 1.05),
      (1.54, 1.14, - 2.21),
      (1.33, 0.68, - 0.79),
      (2.25, 0.13, - 0.43),
      (0.41, 0.88, 1.99),
      (2.13, 0.99, 2.47)]"

text \<open>\<open>rnd\<close> is the value of \<^verbatim>\<open>Math.random()\<close>, a number in \<open>[0, 1)\<close>, so the index
  is in range.\<close>

definition adjustModelRotation :: "real \<Rightarrow> model3d \<Rightarrow> model3d" where
  "adjustModelRotation rnd m =
     (case initRotations ! nat \<lfloor>rnd * real (length initRotations)\<rfloor> of
        (rx, ry, rz) \<Rightarrow> m\<lparr>rotation_x := rx, rotation_y := ry, rotation_z := rz\<rparr>)"

definition adjustModelScale :: "window_env \<Rightarrow> model3d \<Rightarrow> model3d" where
  "adjustModelScale w m =
     (let divisor = (if isMobile w then 550 else 800);
          scaleFactorX = innerWidth w / divisor;
          scaleFactorY = innerHeight w / divisor;
          scaleFactor = min (min scaleFactorX scaleFactorY) 0.8
      in m\<lparr>scale_x := scaleFactor, scale_y := scaleFactor, scale_z := scaleFactor\<rparr>)"

text \<open>Five lights are added to the scene: key, fill, rim, ambient and spot (intensity,
  and \<open>castShadow\<close> where the source sets it).\<close>

definition setupCinematicLighting :: "light list \<Rightarrow> light list" where
  "setupCinematicLighting ls =
     ls @ [DirectionalLight 1.2 True,
           DirectionalLight 0.5 False,
           DirectionalLight 1.0 False,
           AmbientLight 0.3,
           SpotLight 0.8 True]"

text \<open>An intersection as the handlers use it: the normal of the intersected face (the
  point and the distance are only logged).\<close>

record intersection =
  normal_x :: real
  normal_y :: real
  normal_z :: real

definition handleRaycastIntersection :: "intersection list \<Rightarrow> model_state \<Rightarrow> model_state" where
  "handleRaycastIntersection intersections s =
     (case intersections of
        [] \<Rightarrow> s
      | i # _ \<Rightarrow>
          s\<lparr>rotationalXVelocity := rotationalXVelocity s + normal_x i * 0.5,
            rotationalYVelocity := rotationalYVelocity s + normal_y i * 0.5,
            rotationalZVelocity := rotationalZVelocity s + normal_z i * 0.5\<rparr>)"

text \<open>\<open>handleScroll\<close>, with \<open>currentScrollY\<close> the value of \<^verbatim>\<open>window.scrollY\<close>.\<close>

definition handleScroll :: "real \<Rightarrow> model_state \<Rightarrow> model_state" where
  "handleScroll currentScrollY s =
     (if currentScrollY = lastScrollY s
      then s\<lparr>direction := 0, lastScrollY := currentScrollY\<rparr>
      else
        let scrollDirection = (if currentScrollY > lastScrollY s then - 1 else 1)
        in s\<lparr>positionalVelocity := \<bar>currentScrollY - lastScrollY s\<bar> * 0.005,
              direction := scrollDirection,
              lastScrollY := currentScrollY\<rparr>)"

text \<open>The effect with dependency \<open>[modelRef.current]\<close>: the setup pass, guarded by
  \<^verbatim>\<open>modelRef.current && !isSetup\<close>.\<close>

definition setupEffect :: "window_env \<Rightarrow> real \<Rightarrow> model_state \<Rightarrow> model_state" where
  "setupEffect w rnd s =
     (case modelRef s of
        None \<Rightarrow> s
      | Some m \<Rightarrow>
          if \<not> isSetup s
          then s\<lparr>modelRef := Some (adjustModelRotation rnd (adjustModelScale w m)),
                 sceneMeshes := applySmoothShading (sceneMeshes s),
                 sceneLights := setupCinematicLighting (sceneLights s),
                 isSetup := True\<rparr>
          else s)"

text \<open>The resize listener calls \<open>adjustModelScale\<close>, which dereferences the handle
  unguarded: without a handle the listener throws and no state changes.\<close>

definition handleResize :: "window_env \<Rightarrow> model_state \<Rightarrow> model_state" where
  "handleResize w s =
     (case modelRef s of
        None \<Rightarrow> s
      | Some m \<Rightarrow> s\<lparr>modelRef := Some (adjustModelScale w m)\<rparr>)"

text \<open>The \<open>useFrame\<close> callback. The ray cast at its start has no effect on the state (the
  call of the impulse handler is commented out in the source). The updates of the
  handle read the velocities of the state; the state setters are functional updates.\<close>

definition useFrame :: "model_state \<Rightarrow> model_state" where
  "useFrame s =
     (case modelRef s of
        None \<Rightarrow> s
      | Some m \<Rightarrow>
          let y1 = position_y m + positionalVelocity s * direction s;
              y2 = y1 * scrollDampingFactor;
              rx1 = rotation_x m + positionalVelocity s * 0.5 * direction s;
              m' = m\<lparr>position_y := y2,
                     rotation_x := rx1 + rotationalXVelocity s * rotationalVelocityDampingFactor
                                         * dampenDampeningFactor,
                     rotation_y := rotation_y m + rotationalYVelocity s
                                         * rotationalVelocityDampingFactor * dampenDampeningFactor,
                     rotation_z := rotation_z m + rotationalZVelocity s
                                         * rotationalVelocityDampingFactor * dampenDampeningFactor\<rparr>
          in s\<lparr>modelRef := Some m',
                positionalVelocity := positionalVelocity s * positionalVelocityDampingFactor,
                rotationalXVelocity := rotationalXVelocity s * rotationalVelocityDampingFactor,
                rotationalYVelocity := rotationalYVelocity s * rotationalVelocityDampingFactor,
                rotationalZVelocity := rotationalZVelocity s * rotationalVelocityDampingFactor\<rparr>)"

text \<open>The events of the model: a rendered frame, a scroll event with the new offset, a
  pointer event (click, pointer over, pointer out) with its intersections, a run of the
  setup effect, a resize of the window.\<close>

datatype scene_event =
  Frame
  | Scroll real
  | Pointer "intersection list"
  | SetupEffect window_env real
  | Resize window_env

fun scene_step :: "scene_event \<Rightarrow> model_state \<Rightarrow> model_state" where
  "scene_step Frame s = useFrame s"
| "scene_step (Scroll y) s = handleScroll y s"
| "scene_step (Pointer is) s = handleRaycastIntersection is s"
| "scene_step (SetupEffect w rnd) s = setupEffect w rnd s"
| "scene_step (Resize w) s = handleResize w s"

fun scene_run :: "scene_event list \<Rightarrow> model_state \<Rightarrow> model_state" where
  "scene_run [] s = s"
| "scene_run (e # es) s = scene_run es (scene_step e s)"

text \<open>Whether an event executes the body of the setup pass in a state (the guard of the
  effect), and how many times a sequence of events executes it.\<close>

fun setup_fires :: "scene_event \<Rightarrow> model_state \<Rightarrow> bool" where
  "setup_fires (SetupEffect w rnd) s = (modelRef s \<noteq> None \<and> \<not> isSetup s)"
| "setup_fires _ s = False"

fun setup_passes :: "scene_event list \<Rightarrow> model_state \<Rightarrow> nat" where
  "setup_passes [] s = 0"
| "setup_passes (e # es) s =
     (if setup_fires e s then 1 else 0) + setup_passes es (scene_step e s)"

fun is_SetupEffect :: "scene_event \<Rightarrow> bool" where
  "is_SetupEffect (SetupEffect w rnd) = True"
| "is_SetupEffect _ = False"

section \<open>Facts about the frame player\<close>

lemma run_append: "run p (es @ fs) s = run p fs (run p es s)"
  by (induction es arbitrary: s) simp_all

lemma run_snoc: "run p (es @ [e]) s = step p e (run p es s)"
  by (simp add: run_append)

lemma currentFrame_clearInterval [simp]: "currentFrame (clearInterval h s) = currentFrame s"
  by (simp add: clearInterval_def split: option.splits)

lemma isAnimating_clearInterval [simp]: "isAnimating (clearInterval h s) = isAnimating s"
  by (simp add: clearInterval_def split: option.splits)

lemma highResLoaded_clearInterval [simp]: "highResLoaded (clearInterval h s) = highResLoaded s"
  by (simp add: clearInterval_def split: option.splits)

lemma animationInterval_clearInterval [simp]:
  "animationInterval (clearInterval h s) = animationInterval s"
  by (simp add: clearInterval_def split: option.splits)

lemma timers_clearInterval:
  "timers (clearInterval h s) =
     (case h of None \<Rightarrow> timers s | Some i \<Rightarrow> filter (\<lambda>t. fst t \<noteq> i) (timers s))"
  by (simp add: clearInterval_def split: option.splits)

lemma clear_own_timers:
  assumes "list_all (\<lambda>t. animationInterval s = Some (fst t)) (timers s)"
  shows "timers (clearInterval (animationInterval s) s) = []"
proof (cases "animationInterval s")
  case None
  with assms have "timers s = []"
    by (cases "timers s") simp_all
  with None show ?thesis
    by (simp add: timers_clearInterval)
next
  case (Some i)
  with assms have "\<forall>t \<in> set (timers s). fst t = i"
    by (auto simp: list_all_iff)
  then have "filter (\<lambda>t. fst t \<noteq> i) (timers s) = []"
    by (auto simp: filter_empty_conv)
  with Some show ?thesis
    by (simp add: timers_clearInterval)
qed

lemma timer_inv_stopAnimation: "timer_inv s \<Longrightarrow> timer_inv (stopAnimation s)"
  by (auto simp: timer_inv_def stopAnimation_def clear_own_timers)

lemma timers_stopAnimation: "timer_inv s \<Longrightarrow> timers (stopAnimation s) = []"
  by (auto simp: timer_inv_def stopAnimation_def clear_own_timers)

lemma isAnimating_stopAnimation [simp]: "\<not> isAnimating (stopAnimation s)"
  by (simp add: stopAnimation_def)

lemma currentFrame_stopAnimation [simp]: "currentFrame (stopAnimation s) = currentFrame s"
  by (simp add: stopAnimation_def)

lemma highResLoaded_stopAnimation [simp]: "highResLoaded (stopAnimation s) = highResLoaded s"
  by (simp add: stopAnimation_def)

lemma timer_inv_observerCleanup: "timer_inv s \<Longrightarrow> timer_inv (observerCleanup c s)"
  by (auto simp: timer_inv_def observerCleanup_def clear_own_timers)

lemma timer_inv_step: "timer_inv s \<Longrightarrow> timer_inv (step p e s)"
proof (cases e)
  case (Intersect b)
  assume "timer_inv s"
  then have "timer_inv (s\<lparr>currentFrame := 0\<rparr>)"
    by (simp add: timer_inv_def)
  then have "timer_inv (resetAnimation s)"
    unfolding resetAnimation_def by (rule timer_inv_stopAnimation)
  moreover from \<open>timer_inv s\<close> have "timer_inv (startAnimation s)"
    by (simp add: timer_inv_def startAnimation_def)
  ultimately show ?thesis
    using Intersect by (simp add: observerCallback_def)
next
  case Tick
  assume "timer_inv s"
  moreover from \<open>timer_inv s\<close> have "timer_inv (s\<lparr>currentFrame := currentFrame s + 1\<rparr>)"
    by (simp add: timer_inv_def)
  ultimately show ?thesis
    using Tick by (simp add: tick_def timer_inv_stopAnimation)
next
  case Load
  assume "timer_inv s"
  then show ?thesis
    using Load by (simp add: timer_inv_def onLoad_def)
next
  case TickEffect
  assume "timer_inv s"
  then have "timers (tickEffectCleanup s) = []"
    by (simp add: tickEffectCleanup_def timer_inv_def clear_own_timers)
  then show ?thesis
    using TickEffect by (simp add: timer_inv_def tickEffect_def tickEffectCleanup_def)
next
  case (ObserverCleanup c)
  assume "timer_inv s"
  then show ?thesis
    using ObserverCleanup by (simp add: timer_inv_observerCleanup)
qed

lemma timer_inv_run: "timer_inv s \<Longrightarrow> timer_inv (run p es s)"
  by (induction es arbitrary: s) (simp_all add: timer_inv_step)

lemma timer_inv_mount: "timer_inv (ImageAnimation_mount p)"
  by (simp add: timer_inv_def ImageAnimation_mount_def)

lemma currentFrame_step_bound:
  assumes "currentFrame s < length (frames p)"
  shows "currentFrame (step p e s) < length (frames p)"
proof (cases e)
  case (Intersect b)
  with assms show ?thesis
    by (auto simp: observerCallback_def startAnimation_def resetAnimation_def)
next
  case Tick
  with assms show ?thesis
    by (auto simp: tick_def)
next
  case Load
  with assms show ?thesis
    by (simp add: onLoad_def)
next
  case TickEffect
  with assms show ?thesis
    by (simp add: tickEffect_def tickEffectCleanup_def)
next
  case (ObserverCleanup c)
  with assms show ?thesis
    by (simp add: observerCleanup_def)
qed

lemma currentFrame_run_bound:
  "currentFrame s < length (frames p) \<Longrightarrow> currentFrame (run p es s) < length (frames p)"
  by (induction es arbitrary: s) (simp_all add: currentFrame_step_bound)



lemma visible_fields:
  "currentFrame (visible p) = 0"
  "isAnimating (visible p)"
  "timers (visible p) = [(0, cadence p)]"
  "animationInterval (visible p) = Some 0"
  "highResLoaded (visible p) = False"
  by (simp_all add: visible_def ImageAnimation_mount_def observerCallback_def startAnimation_def
      tickEffect_def tickEffectCleanup_def clearInterval_def)

lemma highResLoaded_step: "highResLoaded s \<Longrightarrow> highResLoaded (step p e s)"
  by (cases e)
    (simp_all add: observerCallback_def startAnimation_def resetAnimation_def tick_def
      onLoad_def tickEffect_def tickEffectCleanup_def observerCleanup_def)

lemma highResLoaded_run: "highResLoaded s \<Longrightarrow> highResLoaded (run p es s)"
  by (induction es arbitrary: s) (simp_all add: highResLoaded_step)

lemma ticks_empty_frames:
  "frames p = [] \<Longrightarrow>
     currentFrame (run p (replicate k Tick) (visible p)) = k
     \<and> timers (run p (replicate k Tick) (visible p)) = [(0, cadence p)]"
proof (induction k)
  case 0
  show ?case by (simp add: visible_fields)
next
  case (Suc k)
  have "run p (replicate (Suc k) Tick) (visible p)
      = step p Tick (run p (replicate k Tick) (visible p))"
    using run_snoc [of p "replicate k Tick" Tick "visible p"]
    by (simp add: replicate_append_same)
  with Suc show ?case
    by (simp add: tick_def)
qed

section \<open>The claims about the frame player\<close>




text \<open>
  C3. When the observer reports that the element no longer intersects, the index is 0,
  \<open>isAnimating\<close> is false and no interval is live afterwards. This holds in every state
  in which the live intervals are the one of the ref (\<open>timer_inv\<close>), whatever the index
  \<open>i\<close> is, and every state the player reaches from its mount is such a state.
\<close>

theorem visibility_off_reset:
  "timer_inv (run p es (ImageAnimation_mount p))
   \<and> (timer_inv s \<longrightarrow>
        currentFrame (step p (Intersect False) (s\<lparr>currentFrame := i\<rparr>)) = 0
        \<and> \<not> isAnimating (step p (Intersect False) (s\<lparr>currentFrame := i\<rparr>))
        \<and> timers (step p (Intersect False) (s\<lparr>currentFrame := i\<rparr>)) = [])"
proof -
  have reach: "timer_inv (run p es (ImageAnimation_mount p))"
    by (rule timer_inv_run) (rule timer_inv_mount)
  have off: "timers (step p (Intersect False) (s\<lparr>currentFrame := i\<rparr>)) = []" if "timer_inv s"
  proof -
    from that have "timer_inv (s\<lparr>currentFrame := 0\<rparr>)"
      by (simp add: timer_inv_def)
    then have "timers (stopAnimation (s\<lparr>currentFrame := 0\<rparr>)) = []"
      by (rule timers_stopAnimation)
    then show ?thesis
      by (simp add: observerCallback_def resetAnimation_def)
  qed
  have "currentFrame (step p (Intersect False) (s\<lparr>currentFrame := i\<rparr>)) = 0"
    and "\<not> isAnimating (step p (Intersect False) (s\<lparr>currentFrame := i\<rparr>))"
    by (simp_all add: observerCallback_def resetAnimation_def)
  with reach off show ?thesis
    by blast
qed

theorem visibility_off_reset_witness:
  "timer_inv (run \<lparr>frames = [''f0'', ''f1'', ''f2''], msBetweenFrame = None\<rparr> [Tick]
       (visible \<lparr>frames = [''f0'', ''f1'', ''f2''], msBetweenFrame = None\<rparr>))
   \<and> currentFrame (step \<lparr>frames = [''f0'', ''f1'', ''f2''], msBetweenFrame = None\<rparr> (Intersect False)
       ((run \<lparr>frames = [''f0'', ''f1'', ''f2''], msBetweenFrame = None\<rparr> [Tick]
          (visible \<lparr>frames = [''f0'', ''f1'', ''f2''], msBetweenFrame = None\<rparr>))\<lparr>currentFrame := 1\<rparr>)) = 0
   \<and> timers (step \<lparr>frames = [''f0'', ''f1'', ''f2''], msBetweenFrame = None\<rparr> (Intersect False)
       ((run \<lparr>frames = [''f0'', ''f1'', ''f2''], msBetweenFrame = None\<rparr> [Tick]
          (visible \<lparr>frames = [''f0'', ''f1'', ''f2''], msBetweenFrame = None\<rparr>))\<lparr>currentFrame := 1\<rparr>)) = []"
proof -
  have inv: "timer_inv (run \<lparr>frames = [''f0'', ''f1'', ''f2''], msBetweenFrame = None\<rparr> [Tick]
       (visible \<lparr>frames = [''f0'', ''f1'', ''f2''], msBetweenFrame = None\<rparr>))"
    by (simp add: timer_inv_def visible_def ImageAnimation_mount_def observerCallback_def
        startAnimation_def tickEffect_def tickEffectCleanup_def clearInterval_def tick_def)
  with visibility_off_reset
    [of "\<lparr>frames = [''f0'', ''f1'', ''f2''], msBetweenFrame = None\<rparr>" "[]"
      "run \<lparr>frames = [''f0'', ''f1'', ''f2''], msBetweenFrame = None\<rparr> [Tick]
         (visible \<lparr>frames = [''f0'', ''f1'', ''f2''], msBetweenFrame = None\<rparr>)" 1]
  show ?thesis
    by blast
qed

text \<open>
  C5 (as amended). The component validates nothing: mounting succeeds for every
  \<open>frames\<close> and \<open>msBetweenFrame\<close>, the interval is created with exactly the given
  \<open>msBetweenFrame\<close> as its delay (15 when the property is absent), also when that is 0 or
  negative, and with an empty frame sequence every tick increments the index.
\<close>

theorem no_configuration_validation:
  "timers (visible p) = [(0, cadence p)]
   \<and> cadence (p\<lparr>msBetweenFrame := Some ms\<rparr>) = ms
   \<and> cadence (p\<lparr>msBetweenFrame := None\<rparr>) = 15
   \<and> (frames p = [] \<longrightarrow> currentFrame (run p (replicate k Tick) (visible p)) = k)"
  using ticks_empty_frames [of p k]
  by (simp add: visible_fields cadence_def)

theorem no_configuration_validation_witness:
  "frames \<lparr>frames = [], msBetweenFrame = Some (- 5)\<rparr> = []
   \<and> timers (visible \<lparr>frames = [], msBetweenFrame = Some (- 5)\<rparr>) = [(0, - 5)]
   \<and> currentFrame (run \<lparr>frames = [], msBetweenFrame = Some (- 5)\<rparr> (replicate 4 Tick)
        (visible \<lparr>frames = [], msBetweenFrame = Some (- 5)\<rparr>)) = 4"
  using no_configuration_validation [of "\<lparr>frames = [], msBetweenFrame = Some (- 5)\<rparr>" "- 5" 4]
  by (simp add: cadence_def)

text \<open>
  C5 as stated fails: a player with an empty frame sequence and \<open>msBetweenFrame = 0\<close> is
  mounted and started like any other; its interval has delay 0, and three ticks later
  its index is 3, beyond the empty sequence, where the rendered source is that of the
  frame "undefined".
\<close>

theorem configuration_validation_counterexample:
  "timers (visible \<lparr>frames = [], msBetweenFrame = Some 0\<rparr>) = [(0, 0)]
   \<and> isAnimating (visible \<lparr>frames = [], msBetweenFrame = Some 0\<rparr>)
   \<and> currentFrame (run \<lparr>frames = [], msBetweenFrame = Some 0\<rparr> [Tick, Tick, Tick]
        (visible \<lparr>frames = [], msBetweenFrame = Some 0\<rparr>)) = 3
   \<and> lowResSrc \<lparr>frames = [], msBetweenFrame = Some 0\<rparr>
        (run \<lparr>frames = [], msBetweenFrame = Some 0\<rparr> [Tick, Tick, Tick]
           (visible \<lparr>frames = [], msBetweenFrame = Some 0\<rparr>))
      = ''/tape-falling-frames-placeholder/undefined''"
  by (simp add: visible_def ImageAnimation_mount_def observerCallback_def startAnimation_def
      tickEffect_def tickEffectCleanup_def clearInterval_def tick_def cadence_def
      lowResSrc_def frameName_def)

text \<open>
  C6 (as amended). The flag \<open>highResLoaded\<close> does not depend on the frame index and is a
  latch: it is false at mount, each load event of the high-resolution image sets it to
  true whatever the index is, and no transition of the player sets it back to false, so
  once it is true it stays true for every later frame.
\<close>

theorem high_res_flag_latch:
  "\<not> highResLoaded (ImageAnimation_mount p)
   \<and> highResLoaded (step p Load s)
   \<and> currentFrame (step p Load s) = currentFrame s
   \<and> (highResLoaded s \<longrightarrow> highResLoaded (step p e s))
   \<and> (highResLoaded s \<longrightarrow> highResLoaded (run p es s))"
  using highResLoaded_step [of s p e] highResLoaded_run [of s p es]
  by (simp add: ImageAnimation_mount_def onLoad_def)

theorem high_res_flag_latch_witness:
  "highResLoaded (step \<lparr>frames = [''f0'', ''f1'', ''f2''], msBetweenFrame = None\<rparr> Load
       (ImageAnimation_mount \<lparr>frames = [''f0'', ''f1'', ''f2''], msBetweenFrame = None\<rparr>))
   \<and> highResLoaded (run \<lparr>frames = [''f0'', ''f1'', ''f2''], msBetweenFrame = None\<rparr>
       [Intersect True, TickEffect, Tick, Tick, Intersect False]
       (step \<lparr>frames = [''f0'', ''f1'', ''f2''], msBetweenFrame = None\<rparr> Load
          (ImageAnimation_mount \<lparr>frames = [''f0'', ''f1'', ''f2''], msBetweenFrame = None\<rparr>)))"
  using high_res_flag_latch
    [of "\<lparr>frames = [''f0'', ''f1'', ''f2''], msBetweenFrame = None\<rparr>"
      "ImageAnimation_mount \<lparr>frames = [''f0'', ''f1'', ''f2''], msBetweenFrame = None\<rparr>"]
    high_res_flag_latch
    [of "\<lparr>frames = [''f0'', ''f1'', ''f2''], msBetweenFrame = None\<rparr>"
      "step \<lparr>frames = [''f0'', ''f1'', ''f2''], msBetweenFrame = None\<rparr> Load
          (ImageAnimation_mount \<lparr>frames = [''f0'', ''f1'', ''f2''], msBetweenFrame = None\<rparr>)"
      Load "[Intersect True, TickEffect, Tick, Tick, Intersect False]"]
  by blast

text \<open>
  C6 as stated fails: once frame 0 has loaded, the tick that shows frame 1 finds the flag
  true, before any load event of frame 1; frame 1 is shown with the placeholder
  transparent and has no phase in which the flag is false.
\<close>

theorem high_res_cycle_counterexample:
  "currentFrame (run \<lparr>frames = [''f0'', ''f1'', ''f2''], msBetweenFrame = None\<rparr>
       [Intersect True, TickEffect, Load, Tick]
       (ImageAnimation_mount \<lparr>frames = [''f0'', ''f1'', ''f2''], msBetweenFrame = None\<rparr>)) = 1
   \<and> highResLoaded (run \<lparr>frames = [''f0'', ''f1'', ''f2''], msBetweenFrame = None\<rparr>
       [Intersect True, TickEffect, Load, Tick]
       (ImageAnimation_mount \<lparr>frames = [''f0'', ''f1'', ''f2''], msBetweenFrame = None\<rparr>)) = True
   \<and> lowResOpacity (run \<lparr>frames = [''f0'', ''f1'', ''f2''], msBetweenFrame = None\<rparr>
       [Intersect True, TickEffect, Load, Tick]
       (ImageAnimation_mount \<lparr>frames = [''f0'', ''f1'', ''f2''], msBetweenFrame = None\<rparr>)) = 0"
  by (simp add: ImageAnimation_mount_def observerCallback_def startAnimation_def
      tickEffect_def tickEffectCleanup_def clearInterval_def tick_def onLoad_def lowResOpacity_def)

text \<open>
  C7. For a frame sequence of length at least 1 the index of the player is below the
  length in every state reached from the mount, by any sequence of events (start,
  ticks, resets, effect runs, loads), and each single transition keeps it below the
  length. With a sequence of length 1 a tick in a reached state takes the branch that
  stops the animation, not the one that increments, and the index stays 0.
\<close>

theorem index_bounds:
  assumes "0 < length (frames p)"
  shows "currentFrame (run p es (ImageAnimation_mount p)) < length (frames p)
     \<and> (currentFrame s < length (frames p) \<longrightarrow> currentFrame (step p e s) < length (frames p))
     \<and> (length (frames p) = 1 \<longrightarrow>
          tick p (run p es (ImageAnimation_mount p)) = stopAnimation (run p es (ImageAnimation_mount p))
          \<and> currentFrame (step p Tick (run p es (ImageAnimation_mount p))) = 0)"
proof -
  from assms have "currentFrame (ImageAnimation_mount p) < length (frames p)"
    by (simp add: ImageAnimation_mount_def)
  then have reach: "currentFrame (run p es (ImageAnimation_mount p)) < length (frames p)"
    by (rule currentFrame_run_bound)
  have one: "tick p (run p es (ImageAnimation_mount p)) = stopAnimation (run p es (ImageAnimation_mount p))
      \<and> currentFrame (step p Tick (run p es (ImageAnimation_mount p))) = 0"
    if "length (frames p) = 1"
  proof -
    from reach that have "currentFrame (run p es (ImageAnimation_mount p)) = 0"
      by simp
    with that show ?thesis
      by (simp add: tick_def)
  qed
  from reach one currentFrame_step_bound [of s p e] show ?thesis
    by blast
qed

theorem index_bounds_witness:
  "0 < length (frames \<lparr>frames = [''f0''], msBetweenFrame = None\<rparr>)
   \<and> currentFrame (run \<lparr>frames = [''f0''], msBetweenFrame = None\<rparr>
        [Intersect True, TickEffect, Tick, Intersect False, Intersect True, TickEffect, Tick, Tick]
        (ImageAnimation_mount \<lparr>frames = [''f0''], msBetweenFrame = None\<rparr>)) < 1
   \<and> currentFrame (step \<lparr>frames = [''f0''], msBetweenFrame = None\<rparr> Tick
        (run \<lparr>frames = [''f0''], msBetweenFrame = None\<rparr>
          [Intersect True, TickEffect, Tick, Intersect False, Intersect True, TickEffect, Tick, Tick]
          (ImageAnimation_mount \<lparr>frames = [''f0''], msBetweenFrame = None\<rparr>))) = 0"
proof -
  have pos: "0 < length (frames \<lparr>frames = [''f0''], msBetweenFrame = None\<rparr>)"
    by simp
  from index_bounds [OF pos, of
      "[Intersect True, TickEffect, Tick, Intersect False, Intersect True, TickEffect, Tick, Tick]"]
  show ?thesis
    by simp
qed

section \<open>Facts about the model\<close>

lemma modelRef_scene_step: "modelRef s \<noteq> None \<Longrightarrow> modelRef (scene_step e s) \<noteq> None"
  by (cases e)
    (auto simp: useFrame_def Let_def handleScroll_def handleRaycastIntersection_def
      setupEffect_def handleResize_def split: option.splits list.splits)

lemma isSetup_scene_step:
  "isSetup (scene_step e s) = (isSetup s \<or> setup_fires e s)"
  by (cases e)
    (auto simp: useFrame_def Let_def handleScroll_def handleRaycastIntersection_def
      setupEffect_def handleResize_def split: option.splits list.splits)

lemma sceneLights_scene_step:
  "length (sceneLights (scene_step e s))
     = length (sceneLights s) + (if setup_fires e s then 5 else 0)"
  by (cases e)
    (auto simp: useFrame_def Let_def handleScroll_def handleRaycastIntersection_def
      setupEffect_def handleResize_def setupCinematicLighting_def
      split: option.splits list.splits)

lemma setup_fires_iff:
  "modelRef s \<noteq> None \<Longrightarrow> setup_fires e s = (is_SetupEffect e \<and> \<not> isSetup s)"
  by (cases e) auto

lemma isSetup_scene_run: "isSetup s \<Longrightarrow> isSetup (scene_run es s)"
  by (induction es arbitrary: s) (simp_all add: isSetup_scene_step)

lemma setup_passes_latched: "isSetup s \<Longrightarrow> setup_passes es s = 0"
proof (induction es arbitrary: s)
  case Nil
  show ?case by simp
next
  case (Cons e es)
  from Cons.prems have "\<not> setup_fires e s"
    by (cases e) simp_all
  moreover from Cons.prems have "isSetup (scene_step e s)"
    by (simp add: isSetup_scene_step)
  ultimately show ?case
    by (simp add: Cons.IH)
qed

lemma setup_passes_count:
  "modelRef s \<noteq> None \<Longrightarrow>
     setup_passes es s = (if \<not> isSetup s \<and> list_ex is_SetupEffect es then 1 else 0)"
proof (induction es arbitrary: s)
  case Nil
  show ?case by simp
next
  case (Cons e es)
  note fires = setup_fires_iff [OF Cons.prems, of e]
  have ref: "modelRef (scene_step e s) \<noteq> None"
    using Cons.prems by (rule modelRef_scene_step)
  show ?case
  proof (cases "setup_fires e s")
    case True
    then have "isSetup (scene_step e s)"
      by (simp add: isSetup_scene_step)
    then have "setup_passes es (scene_step e s) = 0"
      by (rule setup_passes_latched)
    with True fires show ?thesis
      by simp
  next
    case False
    then have "isSetup (scene_step e s) = isSetup s"
      by (simp add: isSetup_scene_step)
    with False fires Cons.IH [OF ref] show ?thesis
      by auto
  qed
qed

lemma sceneLights_scene_run:
  "length (sceneLights (scene_run es s)) = length (sceneLights s) + 5 * setup_passes es s"
  by (induction es arbitrary: s) (simp_all add: sceneLights_scene_step)

section \<open>The claims about the model\<close>

text \<open>
  C2. On a rendered frame with the handle present the callback adds
  \<open>positionalVelocity * direction\<close> to \<open>position.y\<close> and then multiplies \<open>position.y\<close> by
  0.92; adds \<open>positionalVelocity * 0.5 * direction\<close> to \<open>rotation.x\<close>; multiplies
  \<open>positionalVelocity\<close> by 0.91; sets the three rotation angles at once, each to its
  value plus the rotational velocity of its axis times 0.97 times 0.1; and multiplies
  each rotational velocity by 0.97. Nothing else of the state changes.
\<close>

theorem per_frame_integration:
  assumes "modelRef s = Some m"
  shows "useFrame s =
     s\<lparr>modelRef := Some (m\<lparr>
          position_y := (position_y m + positionalVelocity s * direction s) * 0.92,
          rotation_x := (rotation_x m + positionalVelocity s * 0.5 * direction s)
                          + rotationalXVelocity s * 0.97 * 0.1,
          rotation_y := rotation_y m + rotationalYVelocity s * 0.97 * 0.1,
          rotation_z := rotation_z m + rotationalZVelocity s * 0.97 * 0.1\<rparr>),
        positionalVelocity := positionalVelocity s * 0.91,
        rotationalXVelocity := rotationalXVelocity s * 0.97,
        rotationalYVelocity := rotationalYVelocity s * 0.97,
        rotationalZVelocity := rotationalZVelocity s * 0.97\<rparr>"
  using assms
  by (simp add: useFrame_def Let_def scrollDampingFactor_def positionalVelocityDampingFactor_def
      rotationalVelocityDampingFactor_def dampenDampeningFactor_def)

theorem per_frame_integration_witness:
  "modelRef (useFrame
      \<lparr>modelRef = Some \<lparr>position_y = 1, rotation_x = 2, rotation_y = 3, rotation_z = 4,
                        scale_x = 1, scale_y = 1, scale_z = 1\<rparr>,
       isSetup = True, lastScrollY = 0, direction = 1, positionalVelocity = 1,
       rotationalXVelocity = 10, rotationalYVelocity = 20, rotationalZVelocity = 30,
       sceneLights = [], sceneMeshes = []\<rparr>)
     = Some \<lparr>position_y = 1.84, rotation_x = 3.47, rotation_y = 4.94, rotation_z = 6.91,
             scale_x = 1, scale_y = 1, scale_z = 1\<rparr>
   \<and> positionalVelocity (useFrame
      \<lparr>modelRef = Some \<lparr>position_y = 1, rotation_x = 2, rotation_y = 3, rotation_z = 4,
                        scale_x = 1, scale_y = 1, scale_z = 1\<rparr>,
       isSetup = True, lastScrollY = 0, direction = 1, positionalVelocity = 1,
       rotationalXVelocity = 10, rotationalYVelocity = 20, rotationalZVelocity = 30,
       sceneLights = [], sceneMeshes = []\<rparr>) = 0.91"
proof -
  have ref: "modelRef
      \<lparr>modelRef = Some \<lparr>position_y = 1, rotation_x = 2, rotation_y = 3, rotation_z = 4,
                        scale_x = 1, scale_y = 1, scale_z = 1\<rparr>,
       isSetup = True, lastScrollY = 0, direction = 1, positionalVelocity = 1,
       rotationalXVelocity = 10, rotationalYVelocity = 20, rotationalZVelocity = 30,
       sceneLights = [], sceneMeshes = []\<rparr>
     = Some \<lparr>position_y = 1, rotation_x = 2, rotation_y = 3, rotation_z = 4,
             scale_x = 1, scale_y = 1, scale_z = 1\<rparr>"
    by simp
  show ?thesis
    by (simp add: per_frame_integration [OF ref])
qed

text \<open>
  C4 (as amended). A scroll event with an offset equal to the recorded one sets the
  direction to 0 and leaves the positional velocity as it is. Otherwise the direction
  becomes +1 when the offset has decreased (scrolled toward the top) and -1 when it has
  increased (scrolled toward the bottom), the positional velocity becomes the absolute
  difference of the offsets times 0.005, and the new offset is recorded. For the change
  of the offset from 100 to 80 the direction is +1 and the positional velocity 0.1.
\<close>

theorem scroll_handler:
  "(y = lastScrollY s \<longrightarrow>
      direction (handleScroll y s) = 0
      \<and> positionalVelocity (handleScroll y s) = positionalVelocity s)
   \<and> (y < lastScrollY s \<longrightarrow>
      direction (handleScroll y s) = 1
      \<and> positionalVelocity (handleScroll y s) = \<bar>y - lastScrollY s\<bar> * 0.005)
   \<and> (y > lastScrollY s \<longrightarrow>
      direction (handleScroll y s) = - 1
      \<and> positionalVelocity (handleScroll y s) = \<bar>y - lastScrollY s\<bar> * 0.005)
   \<and> lastScrollY (handleScroll y s) = y
   \<and> (lastScrollY s = 100 \<longrightarrow>
      direction (handleScroll 80 s) = 1 \<and> positionalVelocity (handleScroll 80 s) = 0.1)"
  by (simp add: handleScroll_def Let_def)

theorem scroll_handler_witness:
  "lastScrollY (scene_run [Scroll 100] (Model_mount None [] [])) = 100
   \<and> direction (handleScroll 80 (scene_run [Scroll 100] (Model_mount None [] []))) = 1
   \<and> positionalVelocity (handleScroll 80 (scene_run [Scroll 100] (Model_mount None [] []))) = 0.1
   \<and> direction (handleScroll 100 (scene_run [Scroll 100] (Model_mount None [] []))) = 0
   \<and> direction (handleScroll 130 (scene_run [Scroll 100] (Model_mount None [] []))) = - 1"
proof -
  have last: "lastScrollY (scene_run [Scroll 100] (Model_mount None [] [])) = 100"
    by (simp add: handleScroll_def Model_mount_def)
  from last
    scroll_handler [of 80 "scene_run [Scroll 100] (Model_mount None [] [])"]
    scroll_handler [of 100 "scene_run [Scroll 100] (Model_mount None [] [])"]
    scroll_handler [of 130 "scene_run [Scroll 100] (Model_mount None [] [])"]
  show ?thesis
    by simp
qed

text \<open>
  C4 as stated fails in its example: after the offsets 100 and then 80 the direction is
  +1, not -1 (the positional velocity is 0.1 as stated).
\<close>

theorem scroll_handler_counterexample:
  "direction (scene_run [Scroll 100, Scroll 80] (Model_mount None [] [])) = 1
   \<and> direction (scene_run [Scroll 100, Scroll 80] (Model_mount None [] [])) \<noteq> - 1
   \<and> positionalVelocity (scene_run [Scroll 100, Scroll 80] (Model_mount None [] [])) = 0.1"
  by (simp add: handleScroll_def Model_mount_def)

text \<open>
  C8. The flag \<open>isSetup\<close> is a latch: no event sets it back to false, and once it is
  true a run of the setup effect changes nothing. From the mount of a model with a
  handle, any sequence of events, with any number of frames, executes the setup pass
  once if the setup effect runs at all and never otherwise; accordingly the scene holds
  the five lights of the pass at most once.
\<close>

theorem setup_latch:
  "(isSetup s \<longrightarrow> isSetup (scene_step e s))
   \<and> (isSetup s \<longrightarrow> isSetup (scene_run es s))
   \<and> (isSetup s \<longrightarrow> setupEffect w rnd s = s)
   \<and> setup_passes es (Model_mount (Some m) ls ms)
       = (if list_ex is_SetupEffect es then 1 else 0)
   \<and> isSetup (scene_run es (Model_mount (Some m) ls ms)) = list_ex is_SetupEffect es
   \<and> length (sceneLights (scene_run es (Model_mount (Some m) ls ms)))
       = length ls + (if list_ex is_SetupEffect es then 5 else 0)"
proof -
  let ?s0 = "Model_mount (Some m) ls ms"
  have ref: "modelRef ?s0 \<noteq> None" and fresh: "\<not> isSetup ?s0" and l0: "sceneLights ?s0 = ls"
    by (simp_all add: Model_mount_def)
  have passes: "setup_passes es ?s0 = (if list_ex is_SetupEffect es then 1 else 0)"
    using setup_passes_count [OF ref, of es] fresh by simp
  have lights: "length (sceneLights (scene_run es ?s0))
      = length ls + (if list_ex is_SetupEffect es then 5 else 0)"
    using sceneLights_scene_run [of es ?s0] passes l0 by simp
  have reached: "isSetup (scene_run es s') = (isSetup s' \<or> list_ex is_SetupEffect es)"
    if "modelRef s' \<noteq> None" for s'
    using that
  proof (induction es arbitrary: s')
    case Nil
    show ?case by simp
  next
    case (Cons e es)
    from Cons.prems have "modelRef (scene_step e s') \<noteq> None"
      by (rule modelRef_scene_step)
    from Cons.IH [OF this] setup_fires_iff [OF Cons.prems, of e] show ?case
      by (auto simp: isSetup_scene_step)
  qed
  have latch: "isSetup s \<longrightarrow> setupEffect w rnd s = s"
    by (simp add: setupEffect_def split: option.splits)
  from passes lights reached [OF ref] fresh latch isSetup_scene_run [of s es]
  show ?thesis
    by (simp add: isSetup_scene_step)
qed

theorem setup_latch_witness:
  "isSetup (setupEffect \<lparr>innerWidth = 1920, innerHeight = 1080, isMobile = False\<rparr> 0
      (Model_mount (Some \<lparr>position_y = 0, rotation_x = 0, rotation_y = 0, rotation_z = 0,
                          scale_x = 1, scale_y = 1, scale_z = 1\<rparr>) [] []))
   \<and> isSetup (scene_run [Frame, Frame, Scroll 10, Frame]
      (setupEffect \<lparr>innerWidth = 1920, innerHeight = 1080, isMobile = False\<rparr> 0
        (Model_mount (Some \<lparr>position_y = 0, rotation_x = 0, rotation_y = 0, rotation_z = 0,
                            scale_x = 1, scale_y = 1, scale_z = 1\<rparr>) [] [])))
   \<and> setup_passes
        [Frame, SetupEffect \<lparr>innerWidth = 1920, innerHeight = 1080, isMobile = False\<rparr> 0, Frame,
         SetupEffect \<lparr>innerWidth = 1920, innerHeight = 1080, isMobile = False\<rparr> 0, Frame]
        (Model_mount (Some \<lparr>position_y = 0, rotation_x = 0, rotation_y = 0, rotation_z = 0,
                            scale_x = 1, scale_y = 1, scale_z = 1\<rparr>) [] []) = 1"
proof -
  have latched: "isSetup (setupEffect \<lparr>innerWidth = 1920, innerHeight = 1080, isMobile = False\<rparr> 0
      (Model_mount (Some \<lparr>position_y = 0, rotation_x = 0, rotation_y = 0, rotation_z = 0,
                          scale_x = 1, scale_y = 1, scale_z = 1\<rparr>) [] []))"
    by (simp add: setupEffect_def Model_mount_def)
  from latched
    setup_latch [of "setupEffect \<lparr>innerWidth = 1920, innerHeight = 1080, isMobile = False\<rparr> 0
      (Model_mount (Some \<lparr>position_y = 0, rotation_x = 0, rotation_y = 0, rotation_z = 0,
                          scale_x = 1, scale_y = 1, scale_z = 1\<rparr>) [] [])"
      Frame "[Frame, Frame, Scroll 10, Frame]"]
    setup_latch [where es = "[Frame, SetupEffect \<lparr>innerWidth = 1920, innerHeight = 1080, isMobile = False\<rparr> 0, Frame,
         SetupEffect \<lparr>innerWidth = 1920, innerHeight = 1080, isMobile = False\<rparr> 0, Frame]"
      and m = "\<lparr>position_y = 0, rotation_x = 0, rotation_y = 0, rotation_z = 0,
                            scale_x = 1, scale_y = 1, scale_z = 1\<rparr>" and ls = "[]" and ms = "[]"]
  show ?thesis
    by simp
qed

text \<open>
  C9. A pointer event with an intersection adds, for each axis, the component of the
  normal of the first intersected face times 0.5 to the rotational velocity of that
  axis. For the normal (0, 1, 0) on a model whose rotational velocities are 0, the
  rotational velocity of the y axis is 0.5 after the event and 0.5 * 0.97 after one
  frame.
\<close>

theorem rotational_impulse:
  "rotationalXVelocity (handleRaycastIntersection (i # rest) s)
     = rotationalXVelocity s + normal_x i * 0.5
   \<and> rotationalYVelocity (handleRaycastIntersection (i # rest) s)
     = rotationalYVelocity s + normal_y i * 0.5
   \<and> rotationalZVelocity (handleRaycastIntersection (i # rest) s)
     = rotationalZVelocity s + normal_z i * 0.5
   \<and> rotationalYVelocity
       (handleRaycastIntersection [\<lparr>normal_x = 0, normal_y = 1, normal_z = 0\<rparr>]
          (Model_mount (Some m) ls ms)) = 0.5
   \<and> rotationalXVelocity
       (handleRaycastIntersection [\<lparr>normal_x = 0, normal_y = 1, normal_z = 0\<rparr>]
          (Model_mount (Some m) ls ms)) = 0
   \<and> rotationalZVelocity
       (handleRaycastIntersection [\<lparr>normal_x = 0, normal_y = 1, normal_z = 0\<rparr>]
          (Model_mount (Some m) ls ms)) = 0
   \<and> rotationalYVelocity
       (useFrame (handleRaycastIntersection [\<lparr>normal_x = 0, normal_y = 1, normal_z = 0\<rparr>]
          (Model_mount (Some m) ls ms))) = 0.5 * 0.97"
  by (simp add: handleRaycastIntersection_def Model_mount_def useFrame_def Let_def
      rotationalVelocityDampingFactor_def)

theorem rotational_impulse_witness:
  "rotationalYVelocity
     (handleRaycastIntersection
        [\<lparr>normal_x = 0, normal_y = 1, normal_z = 0\<rparr>, \<lparr>normal_x = 1, normal_y = 0, normal_z = 0\<rparr>]
        (handleRaycastIntersection [\<lparr>normal_x = 0, normal_y = 1, normal_z = 0\<rparr>]
           (Model_mount None [] []))) = 1
   \<and> rotationalXVelocity
     (handleRaycastIntersection
        [\<lparr>normal_x = 0, normal_y = 1, normal_z = 0\<rparr>, \<lparr>normal_x = 1, normal_y = 0, normal_z = 0\<rparr>]
        (handleRaycastIntersection [\<lparr>normal_x = 0, normal_y = 1, normal_z = 0\<rparr>]
           (Model_mount None [] []))) = 0"
  using rotational_impulse
    [of "\<lparr>normal_x = 0, normal_y = 1, normal_z = 0\<rparr>"
      "[\<lparr>normal_x = 1, normal_y = 0, normal_z = 0\<rparr>]"
      "handleRaycastIntersection [\<lparr>normal_x = 0, normal_y = 1, normal_z = 0\<rparr>]
         (Model_mount None [] [])"]
    rotational_impulse
    [of "\<lparr>normal_x = 0, normal_y = 1, normal_z = 0\<rparr>" "[]" "Model_mount None [] []"]
  by (simp add: Model_mount_def)

text \<open>
  C10. At mount the positional velocity is 0.25 and the direction is -1. The first
  frame, before any scroll or pointer event and whether or not the setup effect has
  run, therefore sets \<open>position.y\<close> to \<open>(position.y - 0.25) * 0.92\<close> and lowers
  \<open>rotation.x\<close> by 0.125; a model at \<open>position.y = 0\<close> is moved to -0.23.
\<close>

theorem initial_kinematic_state:
  "positionalVelocity (Model_mount r ls ms) = 0.25
   \<and> direction (Model_mount r ls ms) = - 1
   \<and> modelRef (useFrame (Model_mount (Some m) ls ms))
       = Some (m\<lparr>position_y := (position_y m - 0.25) * 0.92,
                 rotation_x := rotation_x m - 0.125\<rparr>)
   \<and> map_option rotation_x (modelRef (useFrame (Model_mount (Some m) ls ms)))
       \<noteq> Some (rotation_x m)
   \<and> (position_y m = 0 \<longrightarrow>
        map_option position_y (modelRef (useFrame (Model_mount (Some m) ls ms)))
          = Some (- 0.23))
   \<and> modelRef (useFrame (setupEffect w rnd (Model_mount (Some m) ls ms)))
       = Some ((adjustModelRotation rnd (adjustModelScale w m))\<lparr>
            position_y := (position_y m - 0.25) * 0.92,
            rotation_x := rotation_x (adjustModelRotation rnd (adjustModelScale w m)) - 0.125\<rparr>)"
proof -
  have py: "position_y (adjustModelRotation rnd (adjustModelScale w m)) = position_y m"
    by (simp add: adjustModelRotation_def adjustModelScale_def Let_def split: prod.splits)
  have "modelRef (useFrame (setupEffect w rnd (Model_mount (Some m) ls ms)))
       = Some ((adjustModelRotation rnd (adjustModelScale w m))\<lparr>
            position_y := (position_y m - 0.25) * 0.92,
            rotation_x := rotation_x (adjustModelRotation rnd (adjustModelScale w m)) - 0.125\<rparr>)"
    by (simp add: useFrame_def Let_def setupEffect_def Model_mount_def py
        scrollDampingFactor_def)
  then show ?thesis
    by (simp add: useFrame_def Let_def Model_mount_def scrollDampingFactor_def)
qed

theorem initial_kinematic_state_witness:
  "map_option position_y (modelRef (useFrame (Model_mount
      (Some \<lparr>position_y = 0, rotation_x = 0, rotation_y = 0, rotation_z = 0,
             scale_x = 1, scale_y = 1, scale_z = 1\<rparr>) [] []))) = Some (- 0.23)
   \<and> map_option rotation_x (modelRef (useFrame (Model_mount
      (Some \<lparr>position_y = 0, rotation_x = 0, rotation_y = 0, rotation_z = 0,
             scale_x = 1, scale_y = 1, scale_z = 1\<rparr>) [] []))) = Some (- 0.125)"
  using initial_kinematic_state
    [of None "[]" "[]" "\<lparr>position_y = 0, rotation_x = 0, rotation_y = 0, rotation_z = 0,
             scale_x = 1, scale_y = 1, scale_z = 1\<rparr>"]
  by simp

end
